theory Spec2Isabelle
  imports Main
begin

section \<open>JavaScript values handled by the relay\<close>

text \<open>
  Strings are lists of code units. \<open>startsWith\<close>, \<open>includes\<close> and \<open>substring(0, n)\<close>
  are the \<open>String.prototype\<close> methods the server calls.
\<close>

fun startsWith :: "string \<Rightarrow> string \<Rightarrow> bool" where
  "startsWith s [] = True"
| "startsWith [] (p # ps) = False"
| "startsWith (c # cs) (p # ps) = (c = p \<and> startsWith cs ps)"

fun str_includes :: "string \<Rightarrow> string \<Rightarrow> bool" where
  "str_includes [] sub = (sub = [])"
| "str_includes (c # cs) sub = (startsWith (c # cs) sub \<or> str_includes cs sub)"

definition substring0 :: "string \<Rightarrow> nat \<Rightarrow> string" where
  "substring0 s n = take n s"

text \<open>
  \<open>trim\<close> strips white space and line terminators at both ends. Of the code units that
  ECMAScript counts as such, the ones a \<open>char\<close> can hold are TAB, LF, VT, FF, CR, SPACE
  and NBSP.
\<close>

definition isWhiteSpace :: "char \<Rightarrow> bool" where
  "isWhiteSpace c =
     (c = CHR 0x09 \<or> c = CHR 0x0A \<or> c = CHR 0x0B \<or> c = CHR 0x0C \<or> c = CHR 0x0D
      \<or> c = CHR 0x20 \<or> c = CHR 0xA0)"

definition trim :: "string \<Rightarrow> string" where
  "trim s = rev (dropWhile isWhiteSpace (rev (dropWhile isWhiteSpace s)))"

text \<open>
  A value that is a string or \<open>undefined\<close> is a \<open>string option\<close>; it is truthy when it
  is a string that is not empty.
\<close>

definition truthy :: "string option \<Rightarrow> bool" where
  "truthy v = (case v of None \<Rightarrow> False | Some s \<Rightarrow> s \<noteq> [])"

text \<open>\<open>v || d\<close> for such a value and a default string.\<close>

definition or_else :: "string option \<Rightarrow> string \<Rightarrow> string" where
  "or_else v d = (case v of None \<Rightarrow> d | Some s \<Rightarrow> if s = [] then d else s)"

subsection \<open>Errors thrown by the provider SDK and by the handlers\<close>

record error_detail =
  at_type :: "string option"
  retryDelay :: "string option"

record js_error =
  status :: "int option"
  message :: "string option"
  errorDetails :: "error_detail list option"

definition new_Error :: "string \<Rightarrow> js_error" where
  "new_Error m = \<lparr>status = None, message = Some m, errorDetails = None\<rparr>"

text \<open>Reading a property of \<open>undefined\<close> throws a \<open>TypeError\<close>.\<close>

definition TypeError_reading :: "string \<Rightarrow> js_error" where
  "TypeError_reading prop =
     new_Error (''Cannot read properties of undefined (reading '' @ [CHR 0x27] @ prop @ [CHR 0x27] @ '')'')"

text \<open>
  Destructuring \<open>undefined\<close> or \<open>null\<close>, and calling a property that is not a function,
  throw a \<open>TypeError\<close> too.
\<close>

definition TypeError_destructure :: "string \<Rightarrow> string \<Rightarrow> string \<Rightarrow> js_error" where
  "TypeError_destructure prop source what =
     new_Error (''Cannot destructure property '' @ [CHR 0x27] @ prop @ [CHR 0x27] @ '' of ''
                @ [CHR 0x27] @ source @ [CHR 0x27] @ '' as it is '' @ what @ ''.'')"

definition TypeError_not_a_function :: "string \<Rightarrow> js_error" where
  "TypeError_not_a_function callee = new_Error (callee @ '' is not a function'')"

text \<open>\<open>error.message?.includes(sub)\<close>: \<open>undefined\<close>, hence falsy, when there is no message.\<close>

definition message_includes :: "js_error \<Rightarrow> string \<Rightarrow> bool" where
  "message_includes e sub = (case message e of None \<Rightarrow> False | Some m \<Rightarrow> str_includes m sub)"

definition isQuota :: "js_error \<Rightarrow> bool" where
  "isQuota e = (status e = Some 429 \<or> message_includes e ''quota'' \<or> message_includes e ''Quota'')"

definition isNotFound :: "js_error \<Rightarrow> bool" where
  "isNotFound e =
     (status e = Some 404 \<or> message_includes e ''not found'' \<or> message_includes e ''Not Found'')"

definition isAuth :: "js_error \<Rightarrow> bool" where
  "isAuth e = (status e = Some 401 \<or> message_includes e ''API key'')"

subsection \<open>Provider responses\<close>

record inline_data =
  mimeType :: "string option"
  data :: "string option"

record gen_part =
  inlineData :: "inline_data option"

record gen_content =
  parts :: "gen_part list option"

record gen_candidate =
  content :: "gen_content option"

text \<open>
  \<open>text_result\<close> is what the SDK helper \<open>response.text()\<close> does on this response: it
  returns a string or throws.
\<close>

record gen_response =
  candidates :: "gen_candidate list option"
  text_result :: "js_error + string"

subsection \<open>HTTP responses and the provider\<close>

text \<open>
  JSON values. \<open>JNum n\<close> is the integer \<open>n\<close>, and \<open>JDec m e\<close> the number \<open>m / 10 ^ e\<close>, for
  the numbers that are not integers.
\<close>

datatype json =
    JNull | JStr string | JNum int | JDec int nat | JBool bool | JArr "json list"
  | JObj "(string \<times> json) list"

text \<open>
  A value read from a request is a \<open>json\<close> or \<open>undefined\<close> (\<open>None\<close>). It is falsy when it is
  \<open>undefined\<close>, \<open>null\<close>, \<open>false\<close>, zero or the empty string.
\<close>

definition js_truthy :: "json option \<Rightarrow> bool" where
  "js_truthy v =
     (case v of
        None \<Rightarrow> False
      | Some JNull \<Rightarrow> False
      | Some (JStr s) \<Rightarrow> s \<noteq> []
      | Some (JNum n) \<Rightarrow> n \<noteq> 0
      | Some (JDec m e) \<Rightarrow> m \<noteq> 0
      | Some (JBool b) \<Rightarrow> b
      | Some (JArr xs) \<Rightarrow> True
      | Some (JObj kvs) \<Rightarrow> True)"

text \<open>
  The property \<open>k\<close> of the object with the members \<open>kvs\<close>; of two members with one name
  the later one counts, as in \<open>JSON.parse\<close>.
\<close>

definition property :: "(string \<times> json) list \<Rightarrow> string \<Rightarrow> json option" where
  "property kvs k = map_of (rev kvs) k"

record http_response =
  code :: nat
  body :: "(string \<times> json) list"

text \<open>A property whose value is \<open>undefined\<close> is left out by \<open>res.json\<close>.\<close>

definition opt_str :: "string \<Rightarrow> string option \<Rightarrow> (string \<times> json) list" where
  "opt_str k v = (case v of None \<Rightarrow> [] | Some s \<Rightarrow> [(k, JStr s)])"

record models_reply =
  ok :: bool
  error_message :: "string option"
  models :: "json list option"

text \<open>
  The trace of a handler: a call of \<open>generateContent\<close> (model, prompt and what came back),
  a \<open>getGenerativeModel\<close> that threw before any call was made, a timer of so many
  milliseconds, a fetch of the model catalogue. What the handlers write to the console is
  left out.
\<close>

datatype event =
    GenerateContent string string "js_error + gen_response option"
  | GetModelThrew string js_error
  | Sleep nat
  | Fetch string

text \<open>
  The provider, with its own state \<open>'s\<close>. \<open>getGenerativeModel\<close> is local (\<open>Some e\<close>: it
  throws \<open>e\<close>); \<open>generateContent\<close> throws (\<open>Inl\<close>) or returns a result whose \<open>response\<close>
  property is an object or falsy (\<open>None\<close>).
\<close>

record 's provider =
  getGenerativeModel :: "string \<Rightarrow> js_error option"
  generateContent :: "'s \<Rightarrow> string \<Rightarrow> string \<Rightarrow> (js_error + gen_response option) \<times> 's"
  fetchModels :: "'s \<Rightarrow> string \<Rightarrow> (js_error + models_reply) \<times> 's"

text \<open>The process environment; \<open>genAI\<close> is constructed when the key is truthy.\<close>

record config =
  apiKey :: "string option"

definition genAI :: "config \<Rightarrow> bool" where
  "genAI cfg = truthy (apiKey cfg)"

section \<open>POST /api/generate\<close>

definition modelNames :: "string list" where
  "modelNames =
     [''gemini-2.5-flash-image-preview'', ''gemini-2.0-flash-exp'', ''gemini-2.5-flash-image'',
      ''gemini-1.5-flash'', ''gemini-1.5-pro'', ''gemini-pro'']"

definition maxRetries :: nat where
  "maxRetries = 2"

definition retryDelaySeconds :: nat where
  "retryDelaySeconds = 5"

record vars =
  lastError :: "js_error option"
  response :: "gen_response option"
  successfulModel :: "string option"
  quotaError :: "js_error option"

definition init_vars :: vars where
  "init_vars = \<lparr>lastError = None, response = None, successfulModel = None, quotaError = None\<rparr>"

datatype flow = Break | Continue nat

text \<open>The \<open>catch\<close> block inside the retry loop; \<open>Continue n\<close> carries the new \<open>retryCount\<close>.\<close>

definition on_failure :: "nat \<Rightarrow> js_error \<Rightarrow> vars \<Rightarrow> flow \<times> vars \<times> event list" where
  "on_failure retryCount error v =
     (if isQuota error then
        (let v1 = (if quotaError v = None then v\<lparr>quotaError := Some error\<rparr> else v) in
         if retryCount < maxRetries
         then (Continue (retryCount + 1), v1, [Sleep (retryDelaySeconds * 1000)])
         else (Break, v1\<lparr>lastError := Some error\<rparr>, []))
      else if isNotFound error then (Break, v\<lparr>lastError := Some error\<rparr>, [])
      else if status error = Some 400 then (Break, v\<lparr>lastError := Some error\<rparr>, [])
      else (Break, v\<lparr>lastError := Some error\<rparr>, []))"

text \<open>One pass through the body of the \<open>while\<close> loop.\<close>

definition attempt ::
  "'s provider \<Rightarrow> string \<Rightarrow> string \<Rightarrow> nat \<Rightarrow> vars \<Rightarrow> 's \<Rightarrow> flow \<times> vars \<times> 's \<times> event list" where
  "attempt pr modelName prompt retryCount v s =
     (case getGenerativeModel pr modelName of
        Some error \<Rightarrow>
          (case on_failure retryCount error v of
             (f, v', evs) \<Rightarrow> (f, v', s, GetModelThrew modelName error # evs))
      | None \<Rightarrow>
          (let imageGenerationPrompt = ''Generate an image: '' @ prompt in
           case generateContent pr s modelName imageGenerationPrompt of
             (Inl error, s') \<Rightarrow>
               (case on_failure retryCount error v of
                  (f, v', evs) \<Rightarrow>
                    (f, v', s', GenerateContent modelName imageGenerationPrompt (Inl error) # evs))
           | (Inr None, s') \<Rightarrow>
               (Continue retryCount, v\<lparr>response := None\<rparr>, s',
                [GenerateContent modelName imageGenerationPrompt (Inr None)])
           | (Inr (Some r), s') \<Rightarrow>
               (Break, v\<lparr>response := Some r, successfulModel := Some modelName\<rparr>, s',
                [GenerateContent modelName imageGenerationPrompt (Inr (Some r))])))"

text \<open>
  The \<open>while (retryCount <= maxRetries)\<close> loop on one candidate. It has no bound of its
  own: a result without a response neither breaks nor counts as a retry.
\<close>

partial_function (option) try_model ::
  "'s provider \<Rightarrow> string \<Rightarrow> string \<Rightarrow> nat \<Rightarrow> vars \<Rightarrow> 's \<Rightarrow> event list
     \<Rightarrow> (vars \<times> 's \<times> event list) option" where
  "try_model pr modelName prompt retryCount v s tr =
     (if retryCount \<le> maxRetries then
        (case attempt pr modelName prompt retryCount v s of
           (Break, v', s', evs) \<Rightarrow> Some (v', s', tr @ evs)
         | (Continue retryCount', v', s', evs) \<Rightarrow>
             try_model pr modelName prompt retryCount' v' s' (tr @ evs))
      else Some (v, s, tr))"

text \<open>The \<open>for (const modelName of modelNames)\<close> loop.\<close>

fun try_models ::
  "'s provider \<Rightarrow> string list \<Rightarrow> string \<Rightarrow> vars \<Rightarrow> 's \<Rightarrow> event list
     \<Rightarrow> (vars \<times> 's \<times> event list) option" where
  "try_models pr [] prompt v s tr = Some (v, s, tr)"
| "try_models pr (modelName # rest) prompt v s tr =
     (case try_model pr modelName prompt 0 v s tr of
        None \<Rightarrow> None
      | Some (v', s', tr') \<Rightarrow>
          if response v' \<noteq> None then Some (v', s', tr')
          else try_models pr rest prompt v' s' tr')"

text \<open>What the two \<open>throw\<close> statements after the loops surface, or the response.\<close>

definition after_loop :: "vars \<Rightarrow> js_error + gen_response" where
  "after_loop v =
     (case response v of
        Some r \<Rightarrow> Inr r
      | None \<Rightarrow>
          (case (quotaError v, lastError v) of
             (Some q, None) \<Rightarrow> Inl q
           | (_, Some e) \<Rightarrow> Inl e
           | (None, None) \<Rightarrow>
               Inl (new_Error ''No available model found. Please check your API key and available models.'')))"

text \<open>The search for the image: the \<open>data\<close> of the first part with an image MIME type.\<close>

definition isImagePart :: "gen_part \<Rightarrow> bool" where
  "isImagePart p =
     (case inlineData p of
        None \<Rightarrow> False
      | Some d \<Rightarrow> truthy (mimeType d) \<and> (case mimeType d of None \<Rightarrow> False | Some m \<Rightarrow> startsWith m ''image/''))"

fun find_imageData :: "gen_part list \<Rightarrow> string option" where
  "find_imageData [] = None"
| "find_imageData (p # ps) =
     (if isImagePart p then (case inlineData p of None \<Rightarrow> None | Some d \<Rightarrow> data d)
      else find_imageData ps)"

text \<open>\<open>parts.find(p => p.inlineData?.mimeType)?.inlineData?.mimeType || 'image/png'\<close>\<close>

definition hasMimeType :: "gen_part \<Rightarrow> bool" where
  "hasMimeType p = (case inlineData p of None \<Rightarrow> False | Some d \<Rightarrow> truthy (mimeType d))"

definition find_mimeType :: "gen_part list \<Rightarrow> string" where
  "find_mimeType ps =
     (case find hasMimeType ps of
        None \<Rightarrow> ''image/png''
      | Some p \<Rightarrow>
          (case inlineData p of
             None \<Rightarrow> ''image/png''
           | Some d \<Rightarrow> or_else (mimeType d) ''image/png''))"

definition text_only_response :: "gen_response \<Rightarrow> js_error + http_response" where
  "text_only_response r =
     (case text_result r of
        Inl e \<Rightarrow> Inl e
      | Inr t \<Rightarrow>
          Inr \<lparr>code = 501,
               body =
                 [(''error'', JStr ''Model does not support direct image generation''),
                  (''message'', JStr ''The selected Gemini model returned text instead of an image. Gemini Flash 2.5 (NanoBanana) may require a different API endpoint or method for image generation, or may not be available on your current plan.''),
                  (''response'', JStr (substring0 t 500)),
                  (''suggestion'', JStr ''Please check if Gemini Flash 2.5 has image generation capabilities on your API plan, or consider using a dedicated image generation API.'')]\<rparr>)"

definition image_response :: "string \<Rightarrow> string \<Rightarrow> string \<Rightarrow> http_response" where
  "image_response mime imageData prompt =
     \<lparr>code = 200,
      body =
        [(''success'', JBool True),
         (''image'', JStr (''data:'' @ mime @ '';base64,'' @ imageData)),
         (''prompt'', JStr prompt)]\<rparr>"

text \<open>From the response to the reply: the rest of the \<open>try\<close> block.\<close>

definition respond :: "string \<Rightarrow> gen_response \<Rightarrow> js_error + http_response" where
  "respond prompt r =
     (case (case candidates r of None \<Rightarrow> [] | Some cs \<Rightarrow> cs) of
        [] \<Rightarrow> Inl (new_Error ''No response from Gemini API'')
      | candidate # _ \<Rightarrow>
          (case content candidate of
             None \<Rightarrow> Inl (TypeError_reading ''parts'')
           | Some c \<Rightarrow>
               (let ps = (case parts c of None \<Rightarrow> [] | Some ps \<Rightarrow> ps) in
                case find_imageData ps of
                  None \<Rightarrow> text_only_response r
                | Some imageData \<Rightarrow>
                    if imageData = [] then text_only_response r
                    else Inr (image_response (find_mimeType ps) imageData prompt))))"

text \<open>The outer \<open>catch\<close> block.\<close>

definition isRetryInfo :: "error_detail \<Rightarrow> bool" where
  "isRetryInfo d = (case at_type d of None \<Rightarrow> False | Some t \<Rightarrow> str_includes t ''RetryInfo'')"

definition retryAfter :: "js_error \<Rightarrow> string" where
  "retryAfter error =
     (case errorDetails error of
        None \<Rightarrow> ''16''
      | Some ds \<Rightarrow>
          (case find isRetryInfo ds of
             None \<Rightarrow> ''16''
           | Some d \<Rightarrow> or_else (retryDelay d) ''16''))"

definition generate_catch :: "js_error \<Rightarrow> http_response" where
  "generate_catch error =
     (if isNotFound error then
        \<lparr>code = 404,
         body =
           [(''error'', JStr ''Model not found''),
            (''message'', JStr ''The requested Gemini model is not available. Tried multiple models but none were found.''),
            (''suggestion'', JStr ''Please check your API key permissions and available models. Visit /api/models for debugging info.'')]
           @ opt_str ''details'' (message error)\<rparr>
      else if isQuota error then
        \<lparr>code = 429,
         body =
           [(''error'', JStr ''API quota exceeded''),
            (''message'', JStr ''You have exceeded your current quota. Please wait a moment and try again.''),
            (''retryAfter'', JStr (retryAfter error @ '' seconds''))]
           @ opt_str ''details'' (message error)\<rparr>
      else if isAuth error then
        \<lparr>code = 401,
         body =
           [(''error'', JStr ''Invalid API key''),
            (''message'', JStr ''Please check your GEMINI_API_KEY environment variable.'')]\<rparr>
      else
        \<lparr>code = 500,
         body = [(''error'', JStr ''Failed to generate image'')] @ opt_str ''message'' (message error)\<rparr>)"

definition prompt_required :: http_response where
  "prompt_required = \<lparr>code = 400, body = [(''error'', JStr ''Prompt is required'')]\<rparr>"

definition generate_not_configured :: http_response where
  "generate_not_configured =
     \<lparr>code = 500,
      body = [(''error'', JStr ''Gemini API key not configured. Please set GEMINI_API_KEY environment variable.'')]\<rparr>"

text \<open>
  \<open>const { prompt } = req.body\<close>: the body is \<open>undefined\<close> when no parser has filled it,
  else the value parsed. Destructuring \<open>undefined\<close> or \<open>null\<close> throws; an object gives its
  \<open>prompt\<close> property; an array or a primitive has none.
\<close>

definition request_prompt :: "json option \<Rightarrow> js_error + json option" where
  "request_prompt req_body =
     (case req_body of
        None \<Rightarrow> Inl (TypeError_destructure ''prompt'' ''req.body'' ''undefined'')
      | Some JNull \<Rightarrow> Inl (TypeError_destructure ''prompt'' ''req.body'' ''null'')
      | Some (JObj kvs) \<Rightarrow> Inr (property kvs ''prompt'')
      | Some (JStr x) \<Rightarrow> Inr None
      | Some (JNum x) \<Rightarrow> Inr None
      | Some (JDec x e) \<Rightarrow> Inr None
      | Some (JBool x) \<Rightarrow> Inr None
      | Some (JArr x) \<Rightarrow> Inr None)"

text \<open>
  The \<open>try\<close> block of the handler: a reply, or the exception that leaves it. A prompt that
  is truthy and not a string has no \<open>trim\<close> method, so that the call of it throws. The
  result is \<open>None\<close> when the handler never replies.
\<close>

definition generate_try ::
  "config \<Rightarrow> 's provider \<Rightarrow> json option \<Rightarrow> 's
     \<Rightarrow> ((js_error + http_response) \<times> 's \<times> event list) option" where
  "generate_try cfg pr req_body s =
     (case request_prompt req_body of
        Inl error \<Rightarrow> Some (Inl error, s, [])
      | Inr prompt \<Rightarrow>
          if \<not> js_truthy prompt then Some (Inr prompt_required, s, [])
          else
            (case prompt of
               Some (JStr p) \<Rightarrow>
                 if length (trim p) = 0 then Some (Inr prompt_required, s, [])
                 else if \<not> genAI cfg \<or> \<not> truthy (apiKey cfg)
                 then Some (Inr generate_not_configured, s, [])
                 else
                   (case try_models pr modelNames p init_vars s [] of
                      None \<Rightarrow> None
                    | Some (v, s', tr) \<Rightarrow>
                        (case after_loop v of
                           Inl e \<Rightarrow> Some (Inl e, s', tr)
                         | Inr r \<Rightarrow> Some (respond p r, s', tr)))
             | _ \<Rightarrow> Some (Inl (TypeError_not_a_function ''prompt.trim''), s, [])))"

definition api_generate ::
  "config \<Rightarrow> 's provider \<Rightarrow> json option \<Rightarrow> 's \<Rightarrow> (http_response \<times> 's \<times> event list) option" where
  "api_generate cfg pr req_body s =
     (case generate_try cfg pr req_body s of
        None \<Rightarrow> None
      | Some (Inl error, s', tr) \<Rightarrow> Some (generate_catch error, s', tr)
      | Some (Inr reply, s', tr) \<Rightarrow> Some (reply, s', tr))"

section \<open>The diagnostic routes\<close>



subsection \<open>GET /api/list-models\<close>



subsection \<open>GET /api/test-key\<close>






subsection \<open>GET /api/models\<close>




section \<open>The form client\<close>

record dom =
  promptInput_value :: string
  resultContainer_display :: string
  errorMessage_display :: string
  errorMessage_textContent :: string
  generateBtn_disabled :: bool
  btn_text_display :: string
  btn_loader_display :: string
  generatedImage_src :: string
  promptDisplay_textContent :: string

text \<open>\<open>data.image\<close>: a string, or an object with \<open>url\<close> and \<open>data\<close> properties.\<close>

datatype image_field = ImageString string | ImageObject "string option" "string option"

record reply_data =
  data_error :: "string option"
  data_image :: "image_field option"
  data_prompt :: "string option"

text \<open>
  How the \<open>fetch\<close> settles: it rejects, or it resolves with \<open>response.ok\<close> and with what
  \<open>response.json()\<close> does.
\<close>

datatype fetch_outcome = Rejected js_error | Resolved bool "js_error + reply_data"

definition showError :: "string \<Rightarrow> dom \<Rightarrow> dom" where
  "showError m d = d\<lparr>errorMessage_textContent := m, errorMessage_display := ''block''\<rparr>"

text \<open>
  The handler up to the \<open>fetch\<close>: the new page, and the prompt sent, if one is.
\<close>

definition submit_begin :: "dom \<Rightarrow> dom \<times> string option" where
  "submit_begin d =
     (let prompt = trim (promptInput_value d) in
      if prompt = [] then (showError ''Please enter a prompt'' d, None)
      else
        (d\<lparr>resultContainer_display := ''none'', errorMessage_display := ''none'',
           generateBtn_disabled := True, btn_text_display := ''none'',
           btn_loader_display := ''inline''\<rparr>,
         Some prompt))"

definition image_truthy :: "image_field option \<Rightarrow> bool" where
  "image_truthy i = (case i of None \<Rightarrow> False | Some (ImageString u) \<Rightarrow> u \<noteq> [] | Some (ImageObject _ _) \<Rightarrow> True)"

definition submit_try :: "string \<Rightarrow> fetch_outcome \<Rightarrow> dom \<Rightarrow> js_error + dom" where
  "submit_try prompt outcome d =
     (case outcome of
        Rejected error \<Rightarrow> Inl error
      | Resolved okay parsed \<Rightarrow>
          (case parsed of
             Inl error \<Rightarrow> Inl error
           | Inr dat \<Rightarrow>
               if \<not> okay then
                 Inl (new_Error (or_else (data_error dat) ''Failed to generate image''))
               else if image_truthy (data_image dat) then
                 (let d1 =
                    (case data_image dat of
                       Some (ImageString u) \<Rightarrow> d\<lparr>generatedImage_src := u\<rparr>
                     | Some (ImageObject url dt) \<Rightarrow>
                         (if truthy url then d\<lparr>generatedImage_src := or_else url []\<rparr>
                          else if truthy dt
                          then d\<lparr>generatedImage_src := ''data:image/png;base64,'' @ or_else dt []\<rparr>
                          else d)
                     | None \<Rightarrow> d)
                  in Inr (d1\<lparr>promptDisplay_textContent := or_else (data_prompt dat) prompt,
                             resultContainer_display := ''block''\<rparr>))
               else Inl (new_Error ''No image data received'')))"

definition submit_catch :: "js_error \<Rightarrow> dom \<Rightarrow> dom" where
  "submit_catch error d =
     showError (or_else (message error) ''An error occurred while generating the image'') d"

definition submit_finally :: "dom \<Rightarrow> dom" where
  "submit_finally d =
     d\<lparr>generateBtn_disabled := False, btn_text_display := ''inline'', btn_loader_display := ''none''\<rparr>"

text \<open>The handler from the moment the \<open>fetch\<close> settles, on the page as it is then.\<close>

definition submit_settle :: "string \<Rightarrow> fetch_outcome \<Rightarrow> dom \<Rightarrow> dom" where
  "submit_settle prompt outcome d =
     submit_finally
       (case submit_try prompt outcome d of Inl error \<Rightarrow> submit_catch error d | Inr d' \<Rightarrow> d')"

section \<open>Provider stubs\<close>

text \<open>
  A stub whose answer depends on the model name alone and whose state counts the calls
  made, and one that answers from the number of calls made so far.
\<close>

definition counting_stub :: "(string \<Rightarrow> js_error + gen_response option) \<Rightarrow> nat provider" where
  "counting_stub f =
     \<lparr>getGenerativeModel = (\<lambda>modelName. None),
      generateContent = (\<lambda>n modelName prompt. (f modelName, Suc n)),
      fetchModels = (\<lambda>n url. (Inl (new_Error ''fetch failed''), Suc n))\<rparr>"


definition quota_error :: js_error where
  "quota_error =
     \<lparr>status = Some 429, message = Some ''Resource has been exhausted'',
      errorDetails =
        Some [\<lparr>at_type = Some ''type.googleapis.com/google.rpc.RetryInfo'',
               retryDelay = Some ''30s''\<rparr>]\<rparr>"

definition not_found_error :: js_error where
  "not_found_error =
     \<lparr>status = Some 404, message = Some ''models/gemini-2.5-flash-image-preview is not found'',
      errorDetails = None\<rparr>"

definition response_of_parts :: "gen_part list \<Rightarrow> string \<Rightarrow> gen_response" where
  "response_of_parts ps t =
     \<lparr>candidates = Some [\<lparr>content = Some \<lparr>parts = Some ps\<rparr>\<rparr>], text_result = Inr t\<rparr>"

definition inline_part :: "string \<Rightarrow> string \<Rightarrow> gen_part" where
  "inline_part mime payload = \<lparr>inlineData = Some \<lparr>mimeType = Some mime, data = Some payload\<rparr>\<rparr>"

definition text_part :: gen_part where
  "text_part = \<lparr>inlineData = None\<rparr>"

definition png_response :: gen_response where
  "png_response = response_of_parts [text_part, inline_part ''image/png'' ''AAAA''] ''Here you go''"

definition audio_then_png_response :: gen_response where
  "audio_then_png_response =
     response_of_parts [inline_part ''audio/wav'' ''UklG'', inline_part ''image/png'' ''AAAA''] []"

definition text_response :: gen_response where
  "text_response = response_of_parts [text_part] ''A cat sitting on a mat''"

definition empty_response :: gen_response where
  "empty_response = \<lparr>candidates = Some [], text_result = Inr []\<rparr>"

text \<open>The first candidate is unknown to the provider, the others are out of quota.\<close>

definition first_missing_rest_quota :: "string \<Rightarrow> js_error + gen_response option" where
  "first_missing_rest_quota modelName =
     (if modelName = ''gemini-2.5-flash-image-preview'' then Inl not_found_error
      else Inl quota_error)"



text \<open>The body \<open>{prompt: p}\<close>.\<close>

definition prompt_body :: "string \<Rightarrow> json option" where
  "prompt_body p = Some (JObj [(''prompt'', JStr p)])"

definition configured :: config where
  "configured = \<lparr>apiKey = Some ''AIzaSyExample''\<rparr>"


section \<open>Observations on traces and providers\<close>

text \<open>The attempts made on one candidate, with the five second timer between them.\<close>

fun with_delays :: "event list \<Rightarrow> event list" where
  "with_delays [] = []"
| "with_delays [a] = [a]"
| "with_delays (a # b # rest) = a # Sleep 5000 # with_delays (b # rest)"









text \<open>A provider whose answer to a call does not depend on its state.\<close>

definition deterministic :: "'s provider \<Rightarrow> bool" where
  "deterministic pr =
     (\<forall>s s' m p. fst (generateContent pr s m p) = fst (generateContent pr s' m p))"

declare try_model.simps [code]

section \<open>Facts about strings and the catch block\<close>

lemma trim_Nil_iff: "trim p = [] \<longleftrightarrow> (\<forall>c\<in>set p. isWhiteSpace c)"
proof
  assume "trim p = []"
  then have all: "\<forall>c\<in>set (dropWhile isWhiteSpace p). isWhiteSpace c"
    by (simp add: trim_def)
  have "dropWhile isWhiteSpace p = []"
  proof (rule ccontr)
    assume ne: "dropWhile isWhiteSpace p \<noteq> []"
    then have "\<not> isWhiteSpace (hd (dropWhile isWhiteSpace p))"
      by (rule hd_dropWhile)
    moreover have "hd (dropWhile isWhiteSpace p) \<in> set (dropWhile isWhiteSpace p)"
      using ne by simp
    ultimately show False using all by blast
  qed
  then show "\<forall>c\<in>set p. isWhiteSpace c"
    by simp
next
  assume "\<forall>c\<in>set p. isWhiteSpace c"
  then have d: "dropWhile isWhiteSpace p = []"
    by simp
  show "trim p = []"
    unfolding trim_def d by simp
qed

lemma trim_a_cat: "trim ''a cat'' \<noteq> []"
  by (simp add: trim_def isWhiteSpace_def)

lemma truthy_configured: "truthy (apiKey configured)"
  by (simp add: configured_def truthy_def)




lemma catch_no_response:
  "generate_catch (new_Error ''No response from Gemini API'') =
     \<lparr>code = 500, body = [(''error'', JStr ''Failed to generate image''),
                          (''message'', JStr ''No response from Gemini API'')]\<rparr>"
  by (simp add: generate_catch_def isNotFound_def isQuota_def isAuth_def message_includes_def
      new_Error_def opt_str_def)


lemma catch_quota_error:
  "generate_catch quota_error =
     \<lparr>code = 429,
      body = [(''error'', JStr ''API quota exceeded''),
              (''message'', JStr ''You have exceeded your current quota. Please wait a moment and try again.''),
              (''retryAfter'', JStr ''30s seconds''),
              (''details'', JStr ''Resource has been exhausted'')]\<rparr>"
  by code_simp

lemma catch_not_found_error: "code (generate_catch not_found_error) = 404"
  by (simp add: generate_catch_def isNotFound_def not_found_error_def)

lemma catch_destructure_undefined:
  "generate_catch (TypeError_destructure ''prompt'' ''req.body'' ''undefined'') =
     \<lparr>code = 500,
      body = [(''error'', JStr ''Failed to generate image''),
              (''message'',
               JStr (''Cannot destructure property '' @ [CHR 0x27] @ ''prompt'' @ [CHR 0x27]
                     @ '' of '' @ [CHR 0x27] @ ''req.body'' @ [CHR 0x27]
                     @ '' as it is undefined.''))]\<rparr>"
  by code_simp



lemma request_prompt_body: "request_prompt (prompt_body p) = Inr (Some (JStr p))"
  by (simp add: request_prompt_def prompt_body_def property_def)

section \<open>Facts about the handler of POST /api/generate\<close>

text \<open>Once the prompt and the key have passed, the reply is decided by the loop's variables.\<close>

lemma api_generate_after:
  assumes "request_prompt req_body = Inr (Some (JStr p))"
    and "trim p \<noteq> []" and "truthy (apiKey cfg)"
    and "try_models pr modelNames p init_vars s [] = Some (v, s', tr)"
  shows "api_generate cfg pr req_body s =
     Some (case after_loop v of
             Inl e \<Rightarrow> generate_catch e
           | Inr r \<Rightarrow> (case respond p r of Inl e \<Rightarrow> generate_catch e | Inr reply \<Rightarrow> reply),
           s', tr)"
proof -
  from assms(2) have "p \<noteq> []" by (auto simp: trim_def)
  then have "js_truthy (Some (JStr p))" by (simp add: js_truthy_def)
  with assms show ?thesis
    by (simp add: api_generate_def generate_try_def genAI_def split: sum.splits)
qed

text \<open>The converse: a reply to such a request comes from a run of the loop that returned.\<close>

lemma api_generate_loop:
  assumes "request_prompt req_body = Inr (Some (JStr p))"
    and "trim p \<noteq> []" and "truthy (apiKey cfg)"
    and "api_generate cfg pr req_body s = Some (reply, s', tr)"
  shows "\<exists>v. try_models pr modelNames p init_vars s [] = Some (v, s', tr)"
proof -
  from assms(2) have "p \<noteq> []" by (auto simp: trim_def)
  then have "js_truthy (Some (JStr p))" by (simp add: js_truthy_def)
  with assms show ?thesis
    by (auto simp: api_generate_def generate_try_def genAI_def
        split: sum.splits option.splits)
qed



lemma find_imageData_None: "\<forall>q\<in>set ps. \<not> isImagePart q \<Longrightarrow> find_imageData ps = None"
  by (induction ps) auto

subsection \<open>One iteration of the retry loop\<close>




subsection \<open>The retry loop returns when the provider always responds\<close>



subsection \<open>The trace of the retry loop\<close>








subsection \<open>The trace of the loop over the candidates\<close>




subsection \<open>Providers whose answers do not depend on their state\<close>

lemma attempt_deterministic:
  assumes "deterministic pr" and "attempt pr m p rc v s1 = (f, v', s1', evs)"
  shows "\<exists>s2'. attempt pr m p rc v s2 = (f, v', s2', evs)"
proof (cases "getGenerativeModel pr m")
  case (Some e)
  with assms(2) show ?thesis
    by (auto simp: attempt_def split: prod.splits)
next
  case None
  obtain r t1 where g1: "generateContent pr s1 m (''Generate an image: '' @ p) = (r, t1)"
    by (cases "generateContent pr s1 m (''Generate an image: '' @ p)")
  obtain r' t2 where g2: "generateContent pr s2 m (''Generate an image: '' @ p) = (r', t2)"
    by (cases "generateContent pr s2 m (''Generate an image: '' @ p)")
  from assms(1) have "fst (generateContent pr s1 m (''Generate an image: '' @ p)) =
      fst (generateContent pr s2 m (''Generate an image: '' @ p))"
    unfolding deterministic_def by blast
  with g1 g2 have "r' = r" by simp
  with None g1 g2 assms(2) show ?thesis
    by (auto simp: attempt_def Let_def split: prod.splits sum.splits option.splits)
qed

lemma try_model_deterministic:
  assumes "try_model pr m p rc v s1 tr = Some y"
  shows "deterministic pr \<longrightarrow>
     (\<forall>s2. \<exists>s2'. try_model pr m p rc v s2 tr = Some (fst y, s2', snd (snd y)))"
  using assms
proof (induction rule: try_model.raw_induct [rotated 1, consumes 1, case_names step])
  case (step f pr m p rc v s1 tr y)
  note IH = step(1) and body = step(2)
  show ?case
  proof (intro impI allI)
    fix s2
    assume det: "deterministic pr"
    show "\<exists>s2'. try_model pr m p rc v s2 tr = Some (fst y, s2', snd (snd y))"
    proof (cases "rc \<le> maxRetries")
      case False
      with body show ?thesis
        by (subst try_model.simps) auto
    next
      case True
      obtain fl v' s1' evs where a1: "attempt pr m p rc v s1 = (fl, v', s1', evs)"
        by (cases "attempt pr m p rc v s1")
      from attempt_deterministic [OF det a1]
      obtain s2' where a2: "attempt pr m p rc v s2 = (fl, v', s2', evs)" by blast
      show ?thesis
      proof (cases fl)
        case Break
        with True a1 a2 body show ?thesis
          by (subst try_model.simps) auto
      next
        case (Continue n)
        with True a1 body have "f pr m p n v' s1' (tr @ evs) = Some y"
          by simp
        from IH [OF this] det
        obtain s2'' where "try_model pr m p n v' s2' (tr @ evs) = Some (fst y, s2'', snd (snd y))"
          by blast
        with True a2 Continue show ?thesis
          by (subst try_model.simps) auto
      qed
    qed
  qed
qed

lemma try_models_deterministic:
  assumes "deterministic pr"
  shows "try_models pr ms p v s1 tr = Some (v', s1', tr')
     \<Longrightarrow> \<exists>s2'. try_models pr ms p v s2 tr = Some (v', s2', tr')"
proof (induction ms arbitrary: v s1 s2 tr)
  case Nil
  then show ?case by simp
next
  case (Cons m ms)
  from Cons.prems obtain w t1 tr1 where
    one: "try_model pr m p 0 v s1 tr = Some (w, t1, tr1)"
    by (auto split: option.splits)
  from try_model_deterministic [OF one] assms
  obtain t2 where two: "try_model pr m p 0 v s2 tr = Some (w, t2, tr1)"
    by auto
  show ?case
  proof (cases "response w \<noteq> None")
    case True
    with Cons.prems one two show ?thesis by auto
  next
    case False
    with Cons.prems one have "try_models pr ms p w t1 tr1 = Some (v', s1', tr')"
      by simp
    from Cons.IH [OF this, of t2] two False show ?thesis by simp
  qed
qed

subsection \<open>What is thrown when no candidate responds\<close>

lemma on_failure_Break_lastError:
  "on_failure rc e v = (Break, v', evs) \<Longrightarrow> lastError v' = Some e"
  by (auto simp: on_failure_def Let_def split: if_splits)

lemma on_failure_Continue_bound:
  "on_failure rc e v = (Continue n, v', evs) \<Longrightarrow> n \<le> maxRetries"
  by (auto simp: on_failure_def Let_def split: if_splits)

lemma attempt_Break_lastError:
  assumes "attempt pr m p rc v s = (Break, v', s', evs)" and "response v' = None"
  shows "lastError v' \<noteq> None"
  using assms
  by (auto simp: attempt_def Let_def split: option.splits prod.splits sum.splits
      dest: on_failure_Break_lastError)

lemma attempt_Continue_bound:
  assumes "attempt pr m p rc v s = (Continue n, v', s', evs)" and "rc \<le> maxRetries"
  shows "n \<le> maxRetries"
  using assms
  by (auto simp: attempt_def Let_def split: option.splits prod.splits sum.splits
      dest: on_failure_Continue_bound)

lemma try_model_lastError:
  assumes "try_model pr m p rc v s tr = Some y"
  shows "rc \<le> maxRetries \<longrightarrow> response (fst y) = None \<longrightarrow> lastError (fst y) \<noteq> None"
  using assms
proof (induction rule: try_model.raw_induct [rotated 1, consumes 1, case_names step])
  case (step f pr m p rc v s tr y)
  note IH = step(1) and body = step(2)
  show ?case
  proof (intro impI)
    assume rc: "rc \<le> maxRetries" and none: "response (fst y) = None"
    obtain fl v' s' evs where a: "attempt pr m p rc v s = (fl, v', s', evs)"
      by (cases "attempt pr m p rc v s")
    show "lastError (fst y) \<noteq> None"
    proof (cases fl)
      case Break
      with rc a body have "y = (v', s', tr @ evs)" by simp
      with attempt_Break_lastError [of pr m p rc v s v' s' evs] a Break none show ?thesis
        by simp
    next
      case (Continue n)
      with rc a body have "f pr m p n v' s' (tr @ evs) = Some y" by simp
      from IH [OF this] attempt_Continue_bound [of pr m p rc v s n v' s' evs] a Continue rc none
      show ?thesis by simp
    qed
  qed
qed

lemma try_models_lastError:
  "try_models pr ms p v s tr = Some (v', s', tr') \<Longrightarrow> response v' = None
   \<Longrightarrow> ms \<noteq> [] \<or> lastError v \<noteq> None \<Longrightarrow> lastError v' \<noteq> None"
proof (induction ms arbitrary: v s tr)
  case Nil
  then show ?case by simp
next
  case (Cons m ms)
  from Cons.prems(1) obtain v1 s1 tr1 where
    one: "try_model pr m p 0 v s tr = Some (v1, s1, tr1)"
    by (auto split: option.splits)
  show ?case
  proof (cases "response v1 \<noteq> None")
    case True
    with Cons.prems one show ?thesis by auto
  next
    case False
    with try_model_lastError [OF one] have l: "lastError v1 \<noteq> None"
      by (simp add: maxRetries_def)
    from Cons.prems(1) one False have "try_models pr ms p v1 s1 tr1 = Some (v', s', tr')"
      by simp
    from Cons.IH [OF this Cons.prems(2)] l show ?thesis by simp
  qed
qed

text \<open>
  When the loops end without a response, \<open>lastError\<close> is set and is what the handler
  throws: the branch that throws \<open>quotaError\<close> and the one that makes up a generic error
  are never taken.
\<close>

lemma all_failed_throws_lastError:
  assumes "try_models pr modelNames p init_vars s [] = Some (v, s', tr)"
    and "response v = None"
  shows "\<exists>e. lastError v = Some e \<and> after_loop v = Inl e"
proof -
  have "modelNames \<noteq> []" by (simp add: modelNames_def)
  with try_models_lastError [OF assms] obtain e where "lastError v = Some e"
    by auto
  with assms(2) show ?thesis
    by (cases "quotaError v") (simp_all add: after_loop_def)
qed

subsection \<open>Runs against the stubs\<close>

lemma first_missing_run:
  "generate_try configured (counting_stub first_missing_rest_quota) (prompt_body ''a cat'') 0 =
     Some (Inl quota_error, 16,
           GenerateContent ''gemini-2.5-flash-image-preview'' ''Generate an image: a cat''
             (Inl not_found_error)
           # concat (map (\<lambda>m. with_delays
                 (replicate 3 (GenerateContent m ''Generate an image: a cat'' (Inl quota_error))))
               (tl modelNames)))"
  by code_simp

lemma empty_run:
  "try_models (counting_stub (\<lambda>m. Inr (Some empty_response))) modelNames ''a cat'' init_vars 0 [] =
     Some (init_vars\<lparr>response := Some empty_response,
                     successfulModel := Some ''gemini-2.5-flash-image-preview''\<rparr>, 1,
           [GenerateContent ''gemini-2.5-flash-image-preview'' ''Generate an image: a cat''
              (Inr (Some empty_response))])"
  by code_simp

lemma text_run:
  "try_models (counting_stub (\<lambda>m. Inr (Some text_response))) modelNames ''a cat'' init_vars 0 [] =
     Some (init_vars\<lparr>response := Some text_response,
                     successfulModel := Some ''gemini-2.5-flash-image-preview''\<rparr>, 1,
           [GenerateContent ''gemini-2.5-flash-image-preview'' ''Generate an image: a cat''
              (Inr (Some text_response))])"
  by code_simp

lemma png_run:
  "api_generate configured (counting_stub (\<lambda>m. Inr (Some png_response))) (prompt_body ''a cat'') 0 =
     Some (\<lparr>code = 200,
            body = [(''success'', JBool True), (''image'', JStr ''data:image/png;base64,AAAA''),
                    (''prompt'', JStr ''a cat'')]\<rparr>, 1,
           [GenerateContent ''gemini-2.5-flash-image-preview'' ''Generate an image: a cat''
              (Inr (Some png_response))])"
  by code_simp


section \<open>The claims\<close>

text \<open>
  Claim C1. When every candidate fails, the claim has the relay surface the quota error
  only if no other kind of error was seen, and the last error that is not a quota error
  otherwise. The handler throws \<open>lastError\<close> (\<open>all_failed_throws_lastError\<close>), and the
  retry loop stores the quota error there too once the retries of a candidate are used
  up: against a provider that does not know the first candidate (404) and is out of quota
  for the five others, the reply is the 429 of the quota error, not the 404 of the error
  seen before it.
\<close>

theorem quota_error_hides_not_found:
  "api_generate configured (counting_stub first_missing_rest_quota) (prompt_body ''a cat'') 0 =
     Some (\<lparr>code = 429,
            body = [(''error'', JStr ''API quota exceeded''),
                    (''message'', JStr ''You have exceeded your current quota. Please wait a moment and try again.''),
                    (''retryAfter'', JStr ''30s seconds''),
                    (''details'', JStr ''Resource has been exhausted'')]\<rparr>, 16,
           GenerateContent ''gemini-2.5-flash-image-preview'' ''Generate an image: a cat''
             (Inl not_found_error)
           # concat (map (\<lambda>m. with_delays
                 (replicate 3 (GenerateContent m ''Generate an image: a cat'' (Inl quota_error))))
               (tl modelNames)))
   \<and> \<not> isQuota not_found_error
   \<and> code (generate_catch not_found_error) = 404"
proof -
  have "\<not> isQuota not_found_error"
    by (simp add: isQuota_def message_includes_def not_found_error_def)
  then show ?thesis
    using first_missing_run
    by (simp add: api_generate_def catch_quota_error catch_not_found_error)
qed




text \<open>
  Claim C3. The claim takes both the MIME type and the payload of the data URI from the
  first part with an image MIME type. The handler takes the payload from that part and the
  MIME type from the first part that has any MIME type: a response with an audio part
  before the PNG part yields \<open>data:audio/wav;base64,AAAA\<close>.
\<close>

theorem mime_of_other_part:
  "api_generate configured (counting_stub (\<lambda>modelName. Inr (Some audio_then_png_response)))
       (prompt_body ''a cat'') 0 =
     Some (\<lparr>code = 200,
            body = [(''success'', JBool True), (''image'', JStr ''data:audio/wav;base64,AAAA''),
                    (''prompt'', JStr ''a cat'')]\<rparr>, 1,
           [GenerateContent ''gemini-2.5-flash-image-preview'' ''Generate an image: a cat''
              (Inr (Some audio_then_png_response))])"
  by code_simp






text \<open>
  Claim C6. The claim has every request whose prompt is missing answered 400. A request
  without a body has no prompt, and the handler does not reach its test of the prompt: the
  destructuring of \<open>req.body\<close>, the first statement of the \<open>try\<close> block, throws, and the
  \<open>catch\<close> block replies 500. (A body whose prompt is missing, falsy or blank is answered
  400: \<open>blank_prompt_400\<close>.)
\<close>

theorem bodiless_request_500:
  "api_generate configured (counting_stub first_missing_rest_quota) None 0 =
     Some (\<lparr>code = 500,
            body = [(''error'', JStr ''Failed to generate image''),
                    (''message'',
                     JStr (''Cannot destructure property '' @ [CHR 0x27] @ ''prompt''
                           @ [CHR 0x27] @ '' of '' @ [CHR 0x27] @ ''req.body''
                           @ [CHR 0x27] @ '' as it is undefined.''))]\<rparr>, 0, [])"
  by (simp add: api_generate_def generate_try_def request_prompt_def catch_destructure_undefined)

text \<open>
  Claim C7. When the loop ends with a response whose first candidate has content, none
  of whose parts has an image MIME type, and whose text is \<open>t\<close>, the reply is 501 and its
  \<open>response\<close> property is the first 500 characters of \<open>t\<close>.
\<close>

theorem text_only_501:
  assumes "request_prompt req_body = Inr (Some (JStr p))"
    and "trim p \<noteq> []" and "truthy (apiKey cfg)"
    and "try_models pr modelNames p init_vars s [] = Some (v, s', tr)"
    and "response v = Some r"
    and "candidates r = Some (c # cs)" and "content c = Some ct"
    and "\<forall>q\<in>set (case parts ct of None \<Rightarrow> [] | Some ps \<Rightarrow> ps). \<not> isImagePart q"
    and "text_result r = Inr t"
  shows "\<exists>reply. api_generate cfg pr req_body s = Some (reply, s', tr)
           \<and> code reply = 501
           \<and> map_of (body reply) ''response'' = Some (JStr (take 500 t))
           \<and> length (take 500 t) \<le> 500"
proof -
  have "after_loop v = Inr r"
    using assms(5) by (simp add: after_loop_def)
  moreover have "respond p r = text_only_response r"
    using assms(6,7) find_imageData_None [OF assms(8)] by (simp add: respond_def)
  ultimately show ?thesis
    using api_generate_after [OF assms(1-4)] assms(9)
    by (simp add: text_only_response_def substring0_def)
qed

theorem text_only_501_witness:
  "\<exists>reply.
     api_generate configured (counting_stub (\<lambda>m. Inr (Some text_response)))
         (prompt_body ''a cat'') 0 =
       Some (reply, 1,
             [GenerateContent ''gemini-2.5-flash-image-preview'' ''Generate an image: a cat''
                (Inr (Some text_response))])
     \<and> code reply = 501
     \<and> map_of (body reply) ''response'' = Some (JStr ''A cat sitting on a mat'')"
proof -
  have parts: "\<forall>q\<in>set (case parts \<lparr>parts = Some [text_part]\<rparr> of None \<Rightarrow> [] | Some ps \<Rightarrow> ps).
      \<not> isImagePart q"
    by (simp add: isImagePart_def text_part_def)
  show ?thesis
    using text_only_501 [OF request_prompt_body trim_a_cat truthy_configured text_run _ _ _ parts,
        of text_response "\<lparr>content = Some \<lparr>parts = Some [text_part]\<rparr>\<rparr>" "[]"
          "''A cat sitting on a mat''"]
    by (simp add: text_response_def response_of_parts_def)
qed

text \<open>
  Claim C8. Against a provider whose answers do not depend on its state, a run of the
  handler that replies is repeated by a run from any other provider state, the one the
  first run left behind among them: the same reply and the same trace. The handler has
  no other input than the configuration, which it cannot change, the provider and the
  request.
\<close>

theorem same_prompt_same_outcome:
  assumes "deterministic pr"
    and "api_generate cfg pr req_body s1 = Some (reply, s1', tr)"
  shows "\<exists>s2'. api_generate cfg pr req_body s2 = Some (reply, s2', tr)"
proof (cases "\<exists>p. request_prompt req_body = Inr (Some (JStr p)) \<and> trim p \<noteq> []
    \<and> truthy (apiKey cfg)")
  case True
  then obtain p where p: "request_prompt req_body = Inr (Some (JStr p))" "trim p \<noteq> []"
      "truthy (apiKey cfg)"
    by blast
  from api_generate_loop [OF p assms(2)]
  obtain v where run: "try_models pr modelNames p init_vars s1 [] = Some (v, s1', tr)" ..
  from try_models_deterministic [OF assms(1) run, of s2]
  obtain s2' where again: "try_models pr modelNames p init_vars s2 [] = Some (v, s2', tr)" ..
  from api_generate_after [OF p run] assms(2) api_generate_after [OF p again]
  show ?thesis by simp
next
  case False
  have early: "generate_try cfg pr req_body s2 =
      map_option (\<lambda>(x, s, t). (x, s2, t)) (generate_try cfg pr req_body s1)
      \<and> (\<forall>x s t. generate_try cfg pr req_body s1 = Some (x, s, t) \<longrightarrow> s = s1)"
    using False
    by (auto simp: generate_try_def genAI_def split: sum.splits option.splits json.splits)
  with assms(2) show ?thesis
    by (auto simp: api_generate_def split: option.splits sum.splits prod.splits)
qed

theorem same_prompt_same_outcome_witness:
  "deterministic (counting_stub (\<lambda>m. Inr (Some png_response)))
   \<and> (\<exists>s2'. api_generate configured (counting_stub (\<lambda>m. Inr (Some png_response)))
         (prompt_body ''a cat'') 1 =
         Some (\<lparr>code = 200,
                body = [(''success'', JBool True), (''image'', JStr ''data:image/png;base64,AAAA''),
                        (''prompt'', JStr ''a cat'')]\<rparr>, s2',
               [GenerateContent ''gemini-2.5-flash-image-preview'' ''Generate an image: a cat''
                  (Inr (Some png_response))]))"
proof -
  have h: "deterministic (counting_stub (\<lambda>m. Inr (Some png_response)))"
    by (simp add: deterministic_def counting_stub_def)
  show ?thesis
    using h same_prompt_same_outcome [OF h png_run, of 1] by simp
qed

text \<open>
  Claim C9. A submission that sends the request disables the submit control, and when
  the \<open>fetch\<close> settles, however it does and whatever the page has become, the control is
  enabled again.
\<close>

theorem submit_reenabled:
  assumes "snd (submit_begin d) = Some prompt"
  shows "generateBtn_disabled (fst (submit_begin d))
         \<and> \<not> generateBtn_disabled (submit_settle prompt outcome d')"
proof -
  have "generateBtn_disabled (fst (submit_begin d))"
    using assms by (simp add: submit_begin_def Let_def split: if_splits)
  moreover have "\<not> generateBtn_disabled (submit_settle prompt outcome d')"
    by (simp add: submit_settle_def submit_finally_def)
  ultimately show ?thesis ..
qed

theorem submit_reenabled_witness:
  "generateBtn_disabled (fst (submit_begin
       \<lparr>promptInput_value = '' a cat '', resultContainer_display = ''none'',
        errorMessage_display = ''none'', errorMessage_textContent = [],
        generateBtn_disabled = False, btn_text_display = ''inline'',
        btn_loader_display = ''none'', generatedImage_src = [],
        promptDisplay_textContent = []\<rparr>))
   \<and> \<not> generateBtn_disabled (submit_settle ''a cat'' (Rejected (new_Error ''Failed to fetch''))
       \<lparr>promptInput_value = '' a cat '', resultContainer_display = ''none'',
        errorMessage_display = ''none'', errorMessage_textContent = [],
        generateBtn_disabled = True, btn_text_display = ''none'',
        btn_loader_display = ''inline'', generatedImage_src = [],
        promptDisplay_textContent = []\<rparr>)"
  by (rule submit_reenabled) (simp add: submit_begin_def trim_def isWhiteSpace_def)

text \<open>
  Claim C10. When the loop ends with a response whose \<open>candidates\<close> are missing or empty,
  the reply is 500 with the message \<open>No response from Gemini API\<close>, which the handler
  throws and its \<open>catch\<close> block passes on; it is not the 501 of a text-only response.
\<close>

theorem empty_candidates_500:
  assumes "request_prompt req_body = Inr (Some (JStr p))"
    and "trim p \<noteq> []" and "truthy (apiKey cfg)"
    and "try_models pr modelNames p init_vars s [] = Some (v, s', tr)"
    and "response v = Some r"
    and "candidates r = None \<or> candidates r = Some []"
  shows "api_generate cfg pr req_body s =
           Some (\<lparr>code = 500,
                  body = [(''error'', JStr ''Failed to generate image''),
                          (''message'', JStr ''No response from Gemini API'')]\<rparr>, s', tr)"
proof -
  have "after_loop v = Inr r"
    using assms(5) by (simp add: after_loop_def)
  moreover have "respond p r = Inl (new_Error ''No response from Gemini API'')"
    using assms(6) by (auto simp: respond_def)
  ultimately show ?thesis
    using api_generate_after [OF assms(1-4)] by (simp add: catch_no_response)
qed

theorem empty_candidates_500_witness:
  "candidates empty_response = Some []
   \<and> api_generate configured (counting_stub (\<lambda>m. Inr (Some empty_response)))
       (prompt_body ''a cat'') 0 =
       Some (\<lparr>code = 500,
              body = [(''error'', JStr ''Failed to generate image''),
                      (''message'', JStr ''No response from Gemini API'')]\<rparr>, 1,
             [GenerateContent ''gemini-2.5-flash-image-preview'' ''Generate an image: a cat''
                (Inr (Some empty_response))])"
proof -
  have h: "candidates empty_response = Some []"
    by (simp add: empty_response_def)
  show ?thesis
    using h
      empty_candidates_500 [OF request_prompt_body trim_a_cat truthy_configured empty_run,
        of empty_response]
    by simp
qed

end
